theory Spec2Isabelle
  imports Main "HOL-Library.AList"
begin

section \<open>Values, rows and the shared store\<close>

text \<open>
  The values that reach the handlers of \<^verbatim>\<open>src/app/server.js\<close>: whatever the body
  parsers put under \<^verbatim>\<open>req.body.candidate\<close>, the parameters handed to the query
  executor, and the bodies passed to \<^verbatim>\<open>res.json\<close>. Numbers are integers (counts and
  status codes are the only numbers the handlers touch).
\<close>

datatype jsval =
    JUndefined
  | JNull
  | JBool bool
  | JNum int
  | JStr string
  | JArr "jsval list"
  | JObj "(string \<times> jsval) list"

datatype error =
    QueryError   \<comment> \<open>the \<^verbatim>\<open>err\<close> of the \<^verbatim>\<open>pool.query\<close> callback\<close>
  | TypeError    \<comment> \<open>a method call on \<^verbatim>\<open>undefined\<close> or on a value without that method\<close>

text \<open>
  Modelled from the spec: the declaration of the table \<^verbatim>\<open>system_logs\<close> is not in the
  source. A row has the columns the code names (\<^verbatim>\<open>id\<close> in the ORDER BY,
  \<^verbatim>\<open>event_type, message, pod_id\<close> in the INSERT) and \<^verbatim>\<open>created_at\<close>, the store-assigned
  timestamp of the spec's audit entry, which the page script reads from each log entry.
  Timestamps are natural numbers: their order is all that is used.
\<close>

record log_row =
  row_id :: nat
  event_type :: string
  message :: string
  pod_id :: string
  created_at :: nat

text \<open>A row of \<^verbatim>\<open>SELECT candidate, COUNT(*) as count FROM votes GROUP BY candidate\<close>.\<close>

record vote_group =
  candidate :: string
  count :: int

datatype results =
    VoteGroups "vote_group list"
  | LogRows "log_row list"
  | Header   \<comment> \<open>the result header of an INSERT\<close>

text \<open>
  The world a handler runs in: the replica identity, the two tables of the shared store,
  the store's auto-increment counter and clock, the outcomes of the coming round trips
  (\<open>True\<close>: the round trip fails; an exhausted schedule means no fault), the statements
  handed to the pool so far, and the lines written with \<^verbatim>\<open>console.error\<close>.
\<close>

record world =
  POD_ID :: string
  votes_tbl :: "string list"
  system_logs :: "log_row list"
  next_log_id :: nat
  now :: nat
  faults :: "bool list"
  issued :: "(string \<times> jsval list) list"
  console :: "(string \<times> error) list"

definition sql_tally :: string where
  "sql_tally = ''SELECT candidate, COUNT(*) as count FROM votes GROUP BY candidate''"

definition sql_tail :: string where
  "sql_tail = ''SELECT * FROM system_logs ORDER BY id DESC LIMIT 50''"

definition sql_insert_vote :: string where
  "sql_insert_vote = ''INSERT INTO votes (candidate) VALUES (?)''"

definition sql_insert_log :: string where
  "sql_insert_log = ''INSERT INTO system_logs (event_type, message, pod_id) VALUES (?, ?, ?)''"

text \<open>
  Modelled from the spec: the store (MySQL) is not in the source, and neither is the
  declaration of its tables. \<^verbatim>\<open>GROUP BY candidate\<close> with \<^verbatim>\<open>COUNT(*)\<close> yields one row per
  distinct candidate of the vote table, with the number of its rows.
\<close>

definition group_by_candidate :: "string list \<Rightarrow> vote_group list" where
  "group_by_candidate vs =
     map (\<lambda>c. \<lparr>candidate = c, count = int (count_list vs c)\<rparr>) (remdups vs)"

text \<open>
  Modelled from the spec: \<^verbatim>\<open>ORDER BY id DESC\<close> yields the rows of the audit table, the
  greatest \<^verbatim>\<open>id\<close> first.
\<close>

definition order_by_id_desc :: "log_row list \<Rightarrow> log_row list" where
  "order_by_id_desc ls = rev (sort_key row_id ls)"

text \<open>
  Modelled from the spec: the spec's query executor runs one statement with positionally
  bound parameters and yields result rows or fails. The store answers the four statement
  texts the source sends by what each text says: the grouped count, the first fifty rows
  (\<^verbatim>\<open>LIMIT 50\<close>) by descending id, and for an INSERT one appended row, its positional
  parameters filling the placeholders, with the next id and the reading of the store's
  clock. Any other text or parameter list is an error.
\<close>

definition run_statement :: "string \<Rightarrow> jsval list \<Rightarrow> world \<Rightarrow> (error + results) \<times> world" where
  "run_statement sql params w =
     (if sql = sql_tally then (Inr (VoteGroups (group_by_candidate (votes_tbl w))), w)
      else if sql = sql_tail then (Inr (LogRows (take 50 (order_by_id_desc (system_logs w)))), w)
      else if sql = sql_insert_vote then
        (case params of
           [JStr c] \<Rightarrow> (Inr Header, w\<lparr>votes_tbl := votes_tbl w @ [c]\<rparr>)
         | _ \<Rightarrow> (Inl QueryError, w))
      else if sql = sql_insert_log then
        (case params of
           [JStr e, JStr m, JStr p] \<Rightarrow>
             (Inr Header,
              w\<lparr>system_logs := system_logs w @
                   [\<lparr>row_id = next_log_id w, event_type = e, message = m, pod_id = p,
                     created_at = now w\<rparr>],
                 next_log_id := Suc (next_log_id w)\<rparr>)
         | _ \<Rightarrow> (Inl QueryError, w))
      else (Inl QueryError, w))"

text \<open>
  \<^verbatim>\<open>pool.query(sql, params, callback)\<close>: the statement and its parameters go to the
  store as they are; the round trip fails when the schedule says so, and then leaves the
  tables as they were.
\<close>

definition pool_query :: "string \<Rightarrow> jsval list \<Rightarrow> world \<Rightarrow> (error + results) \<times> world" where
  "pool_query sql params w =
     (let w1 = w\<lparr>issued := issued w @ [(sql, params)]\<rparr> in
      case faults w1 of
        [] \<Rightarrow> run_statement sql params w1
      | f # fs \<Rightarrow>
          if f then (Inl QueryError, w1\<lparr>faults := fs\<rparr>)
          else run_statement sql params (w1\<lparr>faults := fs\<rparr>))"

section \<open>The query helper\<close>

text \<open>
  \<^verbatim>\<open>query(sql, params)\<close> (lines 28 to 35): a promise around \<^verbatim>\<open>pool.query\<close>, rejected with
  the callback's error and resolved with its results.
\<close>

definition query :: "string \<Rightarrow> jsval list \<Rightarrow> world \<Rightarrow> (error + results) \<times> world" where
  "query sql params w =
     (case pool_query sql params w of
        (Inl err, w') \<Rightarrow> (Inl err, w')
      | (Inr results, w') \<Rightarrow> (Inr results, w'))"

section \<open>Requests and responses\<close>

text \<open>
  What the vote handler reads of a request: \<^verbatim>\<open>req.body.candidate\<close> (the body is the
  object the body parsers deliver; a missing property reads as \<^verbatim>\<open>undefined\<close>),
  \<^verbatim>\<open>req.headers['x-forwarded-for']\<close> and \<^verbatim>\<open>req.socket.remoteAddress\<close>, each a string or
  \<^verbatim>\<open>undefined\<close>.
\<close>

record request =
  body_candidate :: jsval
  x_forwarded_for :: "string option"
  remoteAddress :: "string option"

record response =
  status :: nat
  body :: jsval

text \<open>\<^verbatim>\<open>a || b\<close> on strings that may be undefined: the empty string is falsy too.\<close>

definition js_or :: "string option \<Rightarrow> string option \<Rightarrow> string option" where
  "js_or a b = (case a of None \<Rightarrow> b | Some s \<Rightarrow> if s = [] then b else Some s)"

text \<open>
  \<^verbatim>\<open>Array.prototype.includes\<close> compares with SameValueZero: primitives by value, arrays and
  objects by identity, so a parsed array or object equals no element of a literal array.
\<close>

fun same_value_zero :: "jsval \<Rightarrow> jsval \<Rightarrow> bool" where
  "same_value_zero (JArr _) _ = False"
| "same_value_zero (JObj _) _ = False"
| "same_value_zero x y = (x = y)"

definition array_includes :: "jsval list \<Rightarrow> jsval \<Rightarrow> bool" where
  "array_includes xs v = list_ex (\<lambda>x. same_value_zero x v) xs"

text \<open>
  \<^verbatim>\<open>toUpperCase\<close> on the letters a to z; the handler applies it to a validated candidate
  only. \<^verbatim>\<open>s.split(',')[0]\<close> is the part of \<open>s\<close> before its first comma.
\<close>

definition upper_char :: "char \<Rightarrow> char" where
  "upper_char c =
     (let n = (of_char c :: nat) in if 97 \<le> n \<and> n \<le> 122 then char_of (n - 32) else c)"

definition toUpperCase :: "string \<Rightarrow> string" where
  "toUpperCase s = map upper_char s"

definition split_first :: "string \<Rightarrow> string" where
  "split_first s = takeWhile (\<lambda>c. c \<noteq> CHR '','') s"

section \<open>POST /vote\<close>

definition invalid_candidate_response :: response where
  "invalid_candidate_response =
     \<lparr>status = 400,
      body = JObj [(''status'', JStr ''error''), (''message'', JStr ''Invalid candidate'')]\<rparr>"

definition transaction_failed_response :: response where
  "transaction_failed_response =
     \<lparr>status = 500,
      body = JObj [(''status'', JStr ''error''), (''message'', JStr ''Transaction failed'')]\<rparr>"

definition success_response :: response where
  "success_response = \<lparr>status = 200, body = JObj [(''status'', JStr ''success'')]\<rparr>"

text \<open>
  The template literal of line 80. Either method call throws a TypeError when its
  receiver is not a string.
\<close>

definition logMsg :: "jsval \<Rightarrow> string option \<Rightarrow> error + string" where
  "logMsg cand clientIp =
     (case cand of
        JStr c \<Rightarrow>
          (case clientIp of
             Some ip \<Rightarrow> Inr (''Vote confirmed for '' @ toUpperCase c @ '' via '' @ split_first ip)
           | None \<Rightarrow> Inl TypeError)
      | _ \<Rightarrow> Inl TypeError)"

text \<open>
  The handler of lines 67 to 89. The audit statement is handed to the pool before the
  response is sent and its outcome arrives afterwards: a failure goes to
  \<^verbatim>\<open>console.error\<close> through the promise's \<^verbatim>\<open>catch\<close>, so the returned world holds the
  outcome while the response does not depend on it.
\<close>

definition post_vote :: "request \<Rightarrow> world \<Rightarrow> response \<times> world" where
  "post_vote req w =
     (let cand = body_candidate req;
          clientIp = js_or (x_forwarded_for req) (remoteAddress req)
      in
      if \<not> array_includes [JStr ''aws'', JStr ''azure''] cand then (invalid_candidate_response, w)
      else
        (case query sql_insert_vote [cand] w of
           (Inl err, w1) \<Rightarrow>
             (transaction_failed_response,
              w1\<lparr>console := console w1 @ [(''Transaction failed:'', err)]\<rparr>)
         | (Inr _, w1) \<Rightarrow>
             (case logMsg cand clientIp of
                Inl err \<Rightarrow>
                  (transaction_failed_response,
                   w1\<lparr>console := console w1 @ [(''Transaction failed:'', err)]\<rparr>)
              | Inr msg \<Rightarrow>
                  (case query sql_insert_log [JStr ''VOTE_TX'', JStr msg, JStr (POD_ID w1)] w1 of
                     (Inl err, w2) \<Rightarrow> (success_response, w2\<lparr>console := console w2 @ [('''', err)]\<rparr>)
                   | (Inr _, w2) \<Rightarrow> (success_response, w2)))))"

section \<open>GET /api/live-data\<close>

text \<open>
  \<^verbatim>\<open>votes[r.candidate] = r.count\<close> on the object \<^verbatim>\<open>{ aws: 0, azure: 0, total: 0 }\<close>:
  an existing property is overwritten in place, a new one is added at the end, and the
  key \<^verbatim>\<open>__proto__\<close> reaches the prototype setter, which ignores a number.
\<close>

type_synonym votes_obj = "(string \<times> int) list"

definition assign :: "vote_group \<Rightarrow> votes_obj \<Rightarrow> votes_obj" where
  "assign r votes =
     (if candidate r = ''__proto__'' then votes else AList.update (candidate r) (count r) votes)"

text \<open>
  \<^verbatim>\<open>voteResults.forEach(...)\<close>. An INSERT header has no \<^verbatim>\<open>forEach\<close>; rows without the two
  columns would write the key \<^verbatim>\<open>undefined\<close> only. The store answers the tally statement
  with grouped rows, so the first equation is the one that runs.
\<close>

fun forEach_votes :: "results \<Rightarrow> votes_obj \<Rightarrow> error + votes_obj" where
  "forEach_votes (VoteGroups rs) votes = Inr (fold assign rs votes)"
| "forEach_votes (LogRows ls) votes = Inr votes"
| "forEach_votes Header votes = Inl TypeError"

definition get_prop :: "votes_obj \<Rightarrow> string \<Rightarrow> int" where
  "get_prop votes k = (case map_of votes k of Some n \<Rightarrow> n | None \<Rightarrow> 0)"

text \<open>
  Lines 52 to 54. \<^verbatim>\<open>votes.aws\<close> and \<^verbatim>\<open>votes.azure\<close> are properties of the initial
  object and no assignment removes a property, so \<open>get_prop\<close> always finds them.
\<close>

definition process_votes :: "results \<Rightarrow> error + votes_obj" where
  "process_votes voteResults =
     (case forEach_votes voteResults [(''aws'', 0), (''azure'', 0), (''total'', 0)] of
        Inl err \<Rightarrow> Inl err
      | Inr votes \<Rightarrow> Inr (AList.update ''total'' (get_prop votes ''aws'' + get_prop votes ''azure'') votes))"

text \<open>
  The bodies handed to \<^verbatim>\<open>res.json\<close>. Properties appear in insertion order. An INSERT
  header has fields of its own, which no handler reads; it stands here as an empty object.
\<close>

definition log_json :: "log_row \<Rightarrow> jsval" where
  "log_json r =
     JObj [(''id'', JNum (int (row_id r))), (''event_type'', JStr (event_type r)),
           (''message'', JStr (message r)), (''pod_id'', JStr (pod_id r)),
           (''created_at'', JNum (int (created_at r)))]"

fun results_json :: "results \<Rightarrow> jsval" where
  "results_json (VoteGroups rs) =
     JArr (map (\<lambda>r. JObj [(''candidate'', JStr (candidate r)), (''count'', JNum (count r))]) rs)"
| "results_json (LogRows ls) = JArr (map log_json ls)"
| "results_json Header = JObj []"

definition votes_json :: "votes_obj \<Rightarrow> jsval" where
  "votes_json votes = JObj (map (\<lambda>(k, n). (k, JNum n)) votes)"

definition live_data_response :: "string \<Rightarrow> votes_obj \<Rightarrow> results \<Rightarrow> response" where
  "live_data_response pod votes logResults =
     \<lparr>status = 200,
      body = JObj [(''meta'', JObj [(''pod_id'', JStr pod), (''status'', JStr ''healthy'')]),
                   (''data'', JObj [(''votes'', votes_json votes),
                                    (''logs'', results_json logResults)])]\<rparr>"

definition connectivity_response :: response where
  "connectivity_response =
     \<lparr>status = 500, body = JObj [(''error'', JStr ''Database connectivity interruption'')]\<rparr>"

text \<open>
  The handler of lines 43 to 64. Both statements are handed to the pool before either
  outcome is awaited; \<^verbatim>\<open>Promise.all\<close> rejects as soon as one of them does.
\<close>

definition get_live_data :: "world \<Rightarrow> response \<times> world" where
  "get_live_data w =
     (case query sql_tally [] w of
        (r1, w1) \<Rightarrow>
          (case query sql_tail [] w1 of
             (r2, w2) \<Rightarrow>
               (case r1 of
                  Inl err \<Rightarrow> (connectivity_response, w2\<lparr>console := console w2 @ [(''DB Error:'', err)]\<rparr>)
                | Inr voteResults \<Rightarrow>
                    (case r2 of
                       Inl err \<Rightarrow>
                         (connectivity_response, w2\<lparr>console := console w2 @ [(''DB Error:'', err)]\<rparr>)
                     | Inr logResults \<Rightarrow>
                         (case process_votes voteResults of
                            Inl err \<Rightarrow>
                              (connectivity_response,
                               w2\<lparr>console := console w2 @ [(''DB Error:'', err)]\<rparr>)
                          | Inr votes \<Rightarrow> (live_data_response (POD_ID w2) votes logResults, w2))))))"

section \<open>Observations on a run\<close>

text \<open>
  \<open>fails n w\<close>: the round trip of the \<open>n\<close>-th statement handed to the pool from \<open>w\<close> on
  (counting from 0) fails. \<open>issued_by req w\<close>: the statements, with their parameters,
  that the vote handler hands to the pool for \<open>req\<close>. \<open>candidate_sum votes\<close>: the sum of
  the counts of every candidate of a tally object, \<^verbatim>\<open>total\<close> being the one property that
  is not a candidate.
\<close>

definition fails :: "nat \<Rightarrow> world \<Rightarrow> bool" where
  "fails n w = (n < length (faults w) \<and> faults w ! n)"

definition issued_by :: "request \<Rightarrow> world \<Rightarrow> (string \<times> jsval list) list" where
  "issued_by req w = drop (length (issued w)) (issued (snd (post_vote req w)))"


text \<open>The world after the vote handler has served the requests \<open>rs\<close>, one after the other.\<close>

definition after_votes :: "request list \<Rightarrow> world \<Rightarrow> world" where
  "after_votes rs w = fold (\<lambda>r w'. snd (post_vote r w')) rs w"


subsection \<open>Sample requests and stores\<close>

definition vote_for :: "string \<Rightarrow> request" where
  "vote_for c =
     \<lparr>body_candidate = JStr c, x_forwarded_for = Some ''203.0.113.9, 10.0.0.1'',
      remoteAddress = Some ''10.0.0.1''\<rparr>"

definition vote_without_origin :: "string \<Rightarrow> request" where
  "vote_without_origin c =
     \<lparr>body_candidate = JStr c, x_forwarded_for = None, remoteAddress = None\<rparr>"

definition store :: "string list \<Rightarrow> log_row list \<Rightarrow> bool list \<Rightarrow> world" where
  "store vs ls fs =
     \<lparr>POD_ID = ''vote-app-0'', votes_tbl = vs, system_logs = ls,
      next_log_id = Suc (length ls), now = 1000, faults = fs, issued = [], console = []\<rparr>"

definition first_row :: log_row where
  "first_row =
     \<lparr>row_id = 1, event_type = ''VOTE_TX'', message = ''Vote confirmed for AWS via 10.0.0.1'',
      pod_id = ''vote-app-0'', created_at = 20\<rparr>"


section \<open>Properties of the handlers\<close>

subsection \<open>The store and the query helper\<close>

text \<open>
  One run, evaluated: a vote for aws that arrives through a proxy stores the vote row and
  the audit row whose message names the candidate in upper case and the first address of
  the forwarding header.
\<close>

lemma post_vote_sample_run:
  "post_vote (vote_for ''aws'') (store [] [] []) =
     (\<lparr>status = 200, body = JObj [(''status'', JStr ''success'')]\<rparr>,
      \<lparr>POD_ID = ''vote-app-0'', votes_tbl = [''aws''],
       system_logs =
         [\<lparr>row_id = 1, event_type = ''VOTE_TX'',
           message = ''Vote confirmed for AWS via 203.0.113.9'',
           pod_id = ''vote-app-0'', created_at = 1000\<rparr>],
       next_log_id = 2, now = 1000, faults = [],
       issued =
         [(''INSERT INTO votes (candidate) VALUES (?)'', [JStr ''aws'']),
          (''INSERT INTO system_logs (event_type, message, pod_id) VALUES (?, ?, ?)'',
           [JStr ''VOTE_TX'', JStr ''Vote confirmed for AWS via 203.0.113.9'',
            JStr ''vote-app-0''])],
       console = []\<rparr>)"
  by code_simp

lemma query_pool: "query sql params w = pool_query sql params w"
  by (simp add: query_def split: prod.split sum.split)

lemma fails_tl: "faults w' = tl (faults w) \<Longrightarrow> fails n w' = fails (Suc n) w"
  by (cases "faults w") (auto simp: fails_def)

lemma pool_query_fails:
  "fails 0 w \<Longrightarrow>
   pool_query sql params w =
     (Inl QueryError, w\<lparr>issued := issued w @ [(sql, params)], faults := tl (faults w)\<rparr>)"
  by (cases "faults w") (auto simp: pool_query_def fails_def Let_def)

lemma pool_query_runs:
  "\<not> fails 0 w \<Longrightarrow>
   pool_query sql params w =
     run_statement sql params (w\<lparr>issued := issued w @ [(sql, params)], faults := tl (faults w)\<rparr>)"
  by (cases w; cases "faults w") (auto simp: pool_query_def fails_def Let_def)

lemma sql_distinct:
  "sql_tail \<noteq> sql_tally" "sql_insert_vote \<noteq> sql_tally" "sql_insert_vote \<noteq> sql_tail"
  "sql_insert_log \<noteq> sql_tally" "sql_insert_log \<noteq> sql_tail" "sql_insert_log \<noteq> sql_insert_vote"
  by (simp_all add: sql_tally_def sql_tail_def sql_insert_vote_def sql_insert_log_def)

lemma query_fails:
  "fails 0 w \<Longrightarrow>
   query sql params w =
     (Inl QueryError, w\<lparr>issued := issued w @ [(sql, params)], faults := tl (faults w)\<rparr>)"
  by (simp add: query_pool pool_query_fails)

lemma insert_vote_runs:
  "\<not> fails 0 w \<Longrightarrow>
   query sql_insert_vote [JStr c] w =
     (Inr Header,
      w\<lparr>issued := issued w @ [(sql_insert_vote, [JStr c])], faults := tl (faults w),
        votes_tbl := votes_tbl w @ [c]\<rparr>)"
  by (simp add: query_pool pool_query_runs run_statement_def sql_distinct)

lemma insert_log_runs:
  "\<not> fails 0 w \<Longrightarrow>
   query sql_insert_log [JStr e, JStr m, JStr p] w =
     (Inr Header,
      w\<lparr>issued := issued w @ [(sql_insert_log, [JStr e, JStr m, JStr p])],
        faults := tl (faults w),
        system_logs := system_logs w @
          [\<lparr>row_id = next_log_id w, event_type = e, message = m, pod_id = p,
            created_at = now w\<rparr>],
        next_log_id := Suc (next_log_id w)\<rparr>)"
  by (simp add: query_pool pool_query_runs run_statement_def sql_distinct)

lemma tally_runs:
  "\<not> fails 0 w \<Longrightarrow>
   query sql_tally [] w =
     (Inr (VoteGroups (group_by_candidate (votes_tbl w))),
      w\<lparr>issued := issued w @ [(sql_tally, [])], faults := tl (faults w)\<rparr>)"
  by (simp add: query_pool pool_query_runs run_statement_def)

lemma tail_runs:
  "\<not> fails 0 w \<Longrightarrow>
   query sql_tail [] w =
     (Inr (LogRows (take 50 (order_by_id_desc (system_logs w)))),
      w\<lparr>issued := issued w @ [(sql_tail, [])], faults := tl (faults w)\<rparr>)"
  by (simp add: query_pool pool_query_runs run_statement_def sql_distinct)


subsection \<open>The vote handler\<close>

lemma includes_candidates:
  "array_includes [JStr ''aws'', JStr ''azure''] v \<longleftrightarrow> v = JStr ''aws'' \<or> v = JStr ''azure''"
  by (auto simp: array_includes_def)

text \<open>
  C1. A write request whose candidate is neither the string aws nor the string azure is
  answered with status 400 and the body \<^verbatim>\<open>{status: "error", message: "Invalid candidate"}\<close>,
  and the world is left exactly as it was: no statement is handed to the pool, no vote
  row and no audit row is created, nothing is logged.
\<close>

theorem invalid_candidate_rejected:
  assumes "body_candidate req \<noteq> JStr ''aws''" and "body_candidate req \<noteq> JStr ''azure''"
  shows "post_vote req w =
           (\<lparr>status = 400,
             body = JObj [(''status'', JStr ''error''), (''message'', JStr ''Invalid candidate'')]\<rparr>,
            w)
       \<and> issued_by req w = []"
  using assms
  by (simp add: post_vote_def includes_candidates invalid_candidate_response_def issued_by_def)

text \<open>The same for the candidate gcp, and for a candidate sent as a one-element array.\<close>

theorem invalid_candidate_rejected_witness:
  "JStr ''gcp'' \<noteq> JStr ''aws'' \<and> JStr ''gcp'' \<noteq> JStr ''azure''
   \<and> post_vote (vote_for ''gcp'') (store [''aws''] [] []) =
       (\<lparr>status = 400,
         body = JObj [(''status'', JStr ''error''), (''message'', JStr ''Invalid candidate'')]\<rparr>,
        store [''aws''] [] [])
   \<and> issued_by (vote_for ''gcp'') (store [''aws''] [] []) = []
   \<and> post_vote ((vote_for ''gcp'')\<lparr>body_candidate := JArr [JStr ''aws'']\<rparr>) (store [] [] []) =
       (\<lparr>status = 400,
         body = JObj [(''status'', JStr ''error''), (''message'', JStr ''Invalid candidate'')]\<rparr>,
        store [] [] [])"
  using invalid_candidate_rejected [of "vote_for ''gcp''" "store [''aws''] [] []"]
    invalid_candidate_rejected
      [of "(vote_for ''gcp'')\<lparr>body_candidate := JArr [JStr ''aws'']\<rparr>" "store [] [] []"]
  by (simp add: vote_for_def)

lemma post_vote_insert_fails:
  assumes "c = ''aws'' \<or> c = ''azure''" and "body_candidate req = JStr c" and "fails 0 w"
  shows "post_vote req w =
           (transaction_failed_response,
            w\<lparr>issued := issued w @ [(sql_insert_vote, [JStr c])], faults := tl (faults w),
              console := console w @ [(''Transaction failed:'', QueryError)]\<rparr>)"
  using assms by (auto simp: post_vote_def includes_candidates query_fails)

lemma post_vote_no_origin:
  assumes "c = ''aws'' \<or> c = ''azure''" and "body_candidate req = JStr c" and "\<not> fails 0 w"
    and "js_or (x_forwarded_for req) (remoteAddress req) = None"
  shows "post_vote req w =
           (transaction_failed_response,
            w\<lparr>issued := issued w @ [(sql_insert_vote, [JStr c])], faults := tl (faults w),
              votes_tbl := votes_tbl w @ [c],
              console := console w @ [(''Transaction failed:'', TypeError)]\<rparr>)"
  using assms by (auto simp: post_vote_def includes_candidates insert_vote_runs logMsg_def)

lemma post_vote_audit_fails:
  assumes "c = ''aws'' \<or> c = ''azure''" and "body_candidate req = JStr c" and "\<not> fails 0 w"
    and "js_or (x_forwarded_for req) (remoteAddress req) = Some ip" and "fails 1 w"
  shows "post_vote req w =
           (success_response,
            w\<lparr>issued := issued w @
                 [(sql_insert_vote, [JStr c]),
                  (sql_insert_log,
                   [JStr ''VOTE_TX'',
                    JStr (''Vote confirmed for '' @ toUpperCase c @ '' via '' @ split_first ip),
                    JStr (POD_ID w)])],
              faults := tl (tl (faults w)),
              votes_tbl := votes_tbl w @ [c],
              console := console w @ [([], QueryError)]\<rparr>)"
proof -
  let ?w1 = "w\<lparr>issued := issued w @ [(sql_insert_vote, [JStr c])], faults := tl (faults w),
        votes_tbl := votes_tbl w @ [c]\<rparr>"
  have "fails 0 ?w1" using assms(5) by (simp add: fails_tl [of _ w])
  from query_fails [OF this] assms show ?thesis
    by (auto simp: post_vote_def includes_candidates insert_vote_runs logMsg_def)
qed

lemma post_vote_audit_runs:
  assumes "c = ''aws'' \<or> c = ''azure''" and "body_candidate req = JStr c" and "\<not> fails 0 w"
    and "js_or (x_forwarded_for req) (remoteAddress req) = Some ip" and "\<not> fails 1 w"
  shows "post_vote req w =
           (success_response,
            w\<lparr>issued := issued w @
                 [(sql_insert_vote, [JStr c]),
                  (sql_insert_log,
                   [JStr ''VOTE_TX'',
                    JStr (''Vote confirmed for '' @ toUpperCase c @ '' via '' @ split_first ip),
                    JStr (POD_ID w)])],
              faults := tl (tl (faults w)),
              votes_tbl := votes_tbl w @ [c],
              system_logs := system_logs w @
                [\<lparr>row_id = next_log_id w, event_type = ''VOTE_TX'',
                  message = ''Vote confirmed for '' @ toUpperCase c @ '' via '' @ split_first ip,
                  pod_id = POD_ID w, created_at = now w\<rparr>],
              next_log_id := Suc (next_log_id w)\<rparr>)"
proof -
  let ?w1 = "w\<lparr>issued := issued w @ [(sql_insert_vote, [JStr c])], faults := tl (faults w),
        votes_tbl := votes_tbl w @ [c]\<rparr>"
  have "\<not> fails 0 ?w1" using assms(5) by (simp add: fails_tl [of _ w])
  from insert_log_runs [OF this] assms show ?thesis
    by (auto simp: post_vote_def includes_candidates insert_vote_runs logMsg_def)
qed


lemma responses_distinct:
  "transaction_failed_response \<noteq> success_response"
  "success_response \<noteq> transaction_failed_response"
  by (simp_all add: transaction_failed_response_def success_response_def)

lemma issued_by_insert_fails:
  assumes "c = ''aws'' \<or> c = ''azure''" and "body_candidate req = JStr c" and "fails 0 w"
  shows "issued_by req w = [(sql_insert_vote, [JStr c])]"
  by (simp add: issued_by_def post_vote_insert_fails [OF assms])

lemma issued_by_no_origin:
  assumes "c = ''aws'' \<or> c = ''azure''" and "body_candidate req = JStr c" and "\<not> fails 0 w"
    and "js_or (x_forwarded_for req) (remoteAddress req) = None"
  shows "issued_by req w = [(sql_insert_vote, [JStr c])]"
  by (simp add: issued_by_def post_vote_no_origin [OF assms])

text \<open>
  C3. When the vote insert of a valid request fails, the handler answers with status 500
  and the body \<^verbatim>\<open>{status: "error", message: "Transaction failed"}\<close>, and the vote insert
  is the only statement it hands to the pool: no audit insert is issued, the audit table
  is as it was, and the failure is written to the console.
\<close>

theorem vote_insert_failure_no_audit:
  assumes "c = ''aws'' \<or> c = ''azure''" and "body_candidate req = JStr c" and "fails 0 w"
  shows "fst (post_vote req w) =
           \<lparr>status = 500,
            body = JObj [(''status'', JStr ''error''), (''message'', JStr ''Transaction failed'')]\<rparr>
       \<and> issued_by req w = [(sql_insert_vote, [JStr c])]
       \<and> system_logs (snd (post_vote req w)) = system_logs w
       \<and> console (snd (post_vote req w)) = console w @ [(''Transaction failed:'', QueryError)]"
  by (simp add: issued_by_insert_fails [OF assms] post_vote_insert_fails [OF assms]
      transaction_failed_response_def)

text \<open>The same at a store whose next round trip fails.\<close>

theorem vote_insert_failure_no_audit_witness:
  "fails 0 (store [] [] [True])
   \<and> fst (post_vote (vote_for ''aws'') (store [] [] [True])) =
           \<lparr>status = 500,
            body = JObj [(''status'', JStr ''error''), (''message'', JStr ''Transaction failed'')]\<rparr>
   \<and> issued_by (vote_for ''aws'') (store [] [] [True]) = [(sql_insert_vote, [JStr ''aws''])]
   \<and> system_logs (snd (post_vote (vote_for ''aws'') (store [] [] [True]))) = []
   \<and> console (snd (post_vote (vote_for ''aws'') (store [] [] [True]))) =
        [(''Transaction failed:'', QueryError)]"
  using vote_insert_failure_no_audit [of "''aws''" "vote_for ''aws''" "store [] [] [True]"]
  by (simp add: fails_def store_def vote_for_def)

text \<open>
  C10. A valid request with neither an \<^verbatim>\<open>x-forwarded-for\<close> header nor a socket remote
  address is answered with status 500 and the body
  \<^verbatim>\<open>{status: "error", message: "Transaction failed"}\<close>, and no audit insert is issued.
  When the vote insert's round trip succeeds the vote row is nevertheless in the table,
  and what the console records is the TypeError of \<^verbatim>\<open>split\<close> on an undefined origin.
\<close>

theorem undefined_origin_fails_after_vote_persisted:
  assumes "c = ''aws'' \<or> c = ''azure''" and "body_candidate req = JStr c"
    and "x_forwarded_for req = None" and "remoteAddress req = None"
  shows "fst (post_vote req w) =
           \<lparr>status = 500,
            body = JObj [(''status'', JStr ''error''), (''message'', JStr ''Transaction failed'')]\<rparr>
       \<and> issued_by req w = [(sql_insert_vote, [JStr c])]
       \<and> system_logs (snd (post_vote req w)) = system_logs w
       \<and> (\<not> fails 0 w \<longrightarrow>
            votes_tbl (snd (post_vote req w)) = votes_tbl w @ [c]
          \<and> console (snd (post_vote req w)) = console w @ [(''Transaction failed:'', TypeError)])"
proof (cases "fails 0 w")
  case True
  then show ?thesis
    by (simp add: issued_by_insert_fails [OF assms(1,2)] post_vote_insert_fails [OF assms(1,2)]
        transaction_failed_response_def)
next
  case False
  have none: "js_or (x_forwarded_for req) (remoteAddress req) = None"
    using assms(3,4) by (simp add: js_or_def)
  show ?thesis
    by (simp add: False issued_by_no_origin [OF assms(1,2) False none]
        post_vote_no_origin [OF assms(1,2) False none] transaction_failed_response_def)
qed

text \<open>The same at an empty store without faults.\<close>

theorem undefined_origin_fails_after_vote_persisted_witness:
  "\<not> fails 0 (store [] [] [])
   \<and> fst (post_vote (vote_without_origin ''azure'') (store [] [] [])) =
           \<lparr>status = 500,
            body = JObj [(''status'', JStr ''error''), (''message'', JStr ''Transaction failed'')]\<rparr>
   \<and> votes_tbl (snd (post_vote (vote_without_origin ''azure'') (store [] [] []))) = [''azure'']
   \<and> system_logs (snd (post_vote (vote_without_origin ''azure'') (store [] [] []))) = []
   \<and> console (snd (post_vote (vote_without_origin ''azure'') (store [] [] []))) =
        [(''Transaction failed:'', TypeError)]"
  using undefined_origin_fails_after_vote_persisted
          [of "''azure''" "vote_without_origin ''azure''" "store [] [] []"]
  by (simp add: fails_def store_def vote_without_origin_def)


lemma origin_cases:
  obtains "js_or (x_forwarded_for req) (remoteAddress req) = None"
  | ip where "js_or (x_forwarded_for req) (remoteAddress req) = Some ip"
  by (cases "js_or (x_forwarded_for req) (remoteAddress req)") auto

lemma issued_by_audit:
  assumes "c = ''aws'' \<or> c = ''azure''" and "body_candidate req = JStr c" and "\<not> fails 0 w"
    and "js_or (x_forwarded_for req) (remoteAddress req) = Some ip"
  shows "issued_by req w =
           [(sql_insert_vote, [JStr c]),
            (sql_insert_log,
             [JStr ''VOTE_TX'',
              JStr (''Vote confirmed for '' @ toUpperCase c @ '' via '' @ split_first ip),
              JStr (POD_ID w)])]"
proof (cases "fails 1 w")
  case True
  show ?thesis by (simp add: issued_by_def post_vote_audit_fails [OF assms True])
next
  case False
  show ?thesis by (simp add: issued_by_def post_vote_audit_runs [OF assms False])
qed

lemma post_vote_response:
  assumes "c = ''aws'' \<or> c = ''azure''" and "body_candidate req = JStr c" and "\<not> fails 0 w"
  shows "fst (post_vote req w) =
           (if js_or (x_forwarded_for req) (remoteAddress req) = None
            then transaction_failed_response else success_response)"
proof (cases req rule: origin_cases)
  case 1
  then show ?thesis by (simp add: post_vote_no_origin [OF assms 1])
next
  case (2 ip)
  show ?thesis
  proof (cases "fails 1 w")
    case True
    show ?thesis by (simp add: 2 post_vote_audit_fails [OF assms 2 True])
  next
    case False
    show ?thesis by (simp add: 2 post_vote_audit_runs [OF assms 2 False])
  qed
qed

text \<open>
  C2. For a valid request whose vote insert succeeds, the response is the same under every
  schedule of later round trips, so the outcome of the audit insert never changes it.
  Whenever the audit insert is issued the response is \<^verbatim>\<open>{status: "success"}\<close> and the vote
  row is stored; when the audit insert then fails, the failure is written to the console
  and the audit table is as it was.
\<close>

theorem audit_outcome_never_changes_acknowledgement:
  assumes "c = ''aws'' \<or> c = ''azure''" and "body_candidate req = JStr c" and "\<not> fails 0 w"
  shows "(\<not> fails 0 (w\<lparr>faults := fs\<rparr>) \<longrightarrow>
            fst (post_vote req (w\<lparr>faults := fs\<rparr>)) = fst (post_vote req w))
       \<and> (sql_insert_log \<in> fst ` set (issued_by req w) \<longrightarrow>
            fst (post_vote req w) = \<lparr>status = 200, body = JObj [(''status'', JStr ''success'')]\<rparr>
          \<and> votes_tbl (snd (post_vote req w)) = votes_tbl w @ [c]
          \<and> (fails 1 w \<longrightarrow>
                console (snd (post_vote req w)) = console w @ [([], QueryError)]
              \<and> system_logs (snd (post_vote req w)) = system_logs w))"
proof (intro conjI impI)
  assume "\<not> fails 0 (w\<lparr>faults := fs\<rparr>)"
  from post_vote_response [OF assms(1,2) this] post_vote_response [OF assms]
  show "fst (post_vote req (w\<lparr>faults := fs\<rparr>)) = fst (post_vote req w)" by simp
next
  assume audit: "sql_insert_log \<in> fst ` set (issued_by req w)"
  then obtain ip where ip: "js_or (x_forwarded_for req) (remoteAddress req) = Some ip"
    by (cases req rule: origin_cases) (auto simp: issued_by_no_origin [OF assms] sql_distinct)
  show "fst (post_vote req w) = \<lparr>status = 200, body = JObj [(''status'', JStr ''success'')]\<rparr>"
    by (simp add: post_vote_response [OF assms] ip success_response_def)
  show "votes_tbl (snd (post_vote req w)) = votes_tbl w @ [c]"
    by (cases "fails 1 w")
       (simp_all add: post_vote_audit_fails [OF assms ip] post_vote_audit_runs [OF assms ip])
  assume f: "fails 1 w"
  show "console (snd (post_vote req w)) = console w @ [([], QueryError)]"
    by (simp add: post_vote_audit_fails [OF assms ip f])
  show "system_logs (snd (post_vote req w)) = system_logs w"
    by (simp add: post_vote_audit_fails [OF assms ip f])
qed

text \<open>The same at a store whose second round trip, the audit insert, fails.\<close>

theorem audit_outcome_never_changes_acknowledgement_witness:
  "\<not> fails 0 (store [] [] [False, True]) \<and> fails 1 (store [] [] [False, True])
   \<and> \<not> fails 0 (store [] [] [False, False])
   \<and> sql_insert_log \<in> fst ` set (issued_by (vote_for ''aws'') (store [] [] [False, True]))
   \<and> fst (post_vote (vote_for ''aws'') (store [] [] [False, False])) =
       fst (post_vote (vote_for ''aws'') (store [] [] [False, True]))
   \<and> fst (post_vote (vote_for ''aws'') (store [] [] [False, True])) =
       \<lparr>status = 200, body = JObj [(''status'', JStr ''success'')]\<rparr>
   \<and> votes_tbl (snd (post_vote (vote_for ''aws'') (store [] [] [False, True]))) = [''aws'']
   \<and> console (snd (post_vote (vote_for ''aws'') (store [] [] [False, True]))) = [([], QueryError)]
   \<and> system_logs (snd (post_vote (vote_for ''aws'') (store [] [] [False, True]))) = []"
proof -
  have w: "(store [] [] [False, True])\<lparr>faults := [False, False]\<rparr> = store [] [] [False, False]"
    by (simp add: store_def)
  have f: "\<not> fails 0 (store [] [] [False, True])" "fails 1 (store [] [] [False, True])"
    "\<not> fails 0 (store [] [] [False, False])"
    by (simp_all add: fails_def store_def)
  have ip: "js_or (x_forwarded_for (vote_for ''aws'')) (remoteAddress (vote_for ''aws'')) =
              Some ''203.0.113.9, 10.0.0.1''"
    by (simp add: js_or_def vote_for_def)
  have c: "body_candidate (vote_for ''aws'') = JStr ''aws''" by (simp add: vote_for_def)
  have a: "sql_insert_log \<in> fst ` set (issued_by (vote_for ''aws'') (store [] [] [False, True]))"
    by (simp add: issued_by_audit [OF _ c f(1) ip])
  from audit_outcome_never_changes_acknowledgement
         [of "''aws''" "vote_for ''aws''" "store [] [] [False, True]" "[False, False]"]
  show ?thesis using w f a c by (simp add: store_def)
qed

text \<open>
  C9. The query helper hands its statement and parameters to the pool unchanged, and the
  statement texts the vote handler issues are the two fixed strings, whatever the request:
  the candidate travels as the one parameter of the vote insert, and the audit message
  (built from the candidate and the origin) and the replica identity travel as
  parameters of the audit insert.
\<close>

theorem statement_texts_constant:
  "issued (snd (query sql params w)) = issued w @ [(sql, params)]
   \<and> map fst (issued_by req w) \<in>
       {[], [''INSERT INTO votes (candidate) VALUES (?)''],
        [''INSERT INTO votes (candidate) VALUES (?)'',
         ''INSERT INTO system_logs (event_type, message, pod_id) VALUES (?, ?, ?)'']}
   \<and> (issued_by req w = []
      \<or> issued_by req w = [(sql_insert_vote, [body_candidate req])]
      \<or> (\<exists>c ip. body_candidate req = JStr c
            \<and> js_or (x_forwarded_for req) (remoteAddress req) = Some ip
            \<and> issued_by req w =
                [(sql_insert_vote, [body_candidate req]),
                 (sql_insert_log,
                  [JStr ''VOTE_TX'',
                   JStr (''Vote confirmed for '' @ toUpperCase c @ '' via '' @ split_first ip),
                   JStr (POD_ID w)])]))"
proof -
  have q: "issued (snd (query sql params w)) = issued w @ [(sql, params)]"
    by (cases "fails 0 w")
       (simp_all add: query_pool pool_query_fails pool_query_runs run_statement_def
          split: list.split jsval.split)
  have cases:
    "issued_by req w = []
      \<or> issued_by req w = [(sql_insert_vote, [body_candidate req])]
      \<or> (\<exists>c ip. body_candidate req = JStr c
            \<and> js_or (x_forwarded_for req) (remoteAddress req) = Some ip
            \<and> issued_by req w =
                [(sql_insert_vote, [body_candidate req]),
                 (sql_insert_log,
                  [JStr ''VOTE_TX'',
                   JStr (''Vote confirmed for '' @ toUpperCase c @ '' via '' @ split_first ip),
                   JStr (POD_ID w)])])"
  proof (cases "body_candidate req = JStr ''aws'' \<or> body_candidate req = JStr ''azure''")
    case False
    then have "post_vote req w = (invalid_candidate_response, w)"
      by (simp add: post_vote_def includes_candidates)
    then show ?thesis by (simp add: issued_by_def)
  next
    case True
    then obtain c where c: "c = ''aws'' \<or> c = ''azure''" "body_candidate req = JStr c" by auto
    show ?thesis
    proof (cases "fails 0 w")
      case True
      then show ?thesis using issued_by_insert_fails [OF c] by (simp add: c)
    next
      case False
      show ?thesis
      proof (cases req rule: origin_cases)
        case 1
        then show ?thesis using issued_by_no_origin [OF c False] by (simp add: c)
      next
        case (2 ip)
        then show ?thesis using issued_by_audit [OF c False 2] by (simp add: c)
      qed
    qed
  qed
  from cases have "map fst (issued_by req w) \<in>
       {[], [''INSERT INTO votes (candidate) VALUES (?)''],
        [''INSERT INTO votes (candidate) VALUES (?)'',
         ''INSERT INTO system_logs (event_type, message, pod_id) VALUES (?, ?, ?)'']}"
    by (auto simp: sql_insert_vote_def sql_insert_log_def)
  with q cases show ?thesis by blast
qed

lemma success_appends_vote:
  assumes "c = ''aws'' \<or> c = ''azure''" and "body_candidate req = JStr c"
    and "post_vote req w = (success_response, w')"
  shows "votes_tbl w' = votes_tbl w @ [c]"
proof (cases "fails 0 w")
  case True
  with post_vote_insert_fails [OF assms(1,2) True] assms(3) show ?thesis
    by (simp add: responses_distinct)
next
  case False
  show ?thesis
  proof (cases req rule: origin_cases)
    case 1
    with post_vote_no_origin [OF assms(1,2) False 1] assms(3) show ?thesis
      by (simp add: responses_distinct)
  next
    case (2 ip)
    show ?thesis
    proof (cases "fails 1 w")
      case True
      from post_vote_audit_fails [OF assms(1,2) False 2 True] assms(3) show ?thesis by auto
    next
      case False
      from post_vote_audit_runs [OF assms(1,2) \<open>\<not> fails 0 w\<close> 2 False] assms(3) show ?thesis by auto
    qed
  qed
qed


subsection \<open>The snapshot handler\<close>

lemma process_votes_groups:
  "process_votes (VoteGroups rs) =
     Inr (AList.update ''total''
            (get_prop (fold assign rs [(''aws'', 0), (''azure'', 0), (''total'', 0)]) ''aws''
             + get_prop (fold assign rs [(''aws'', 0), (''azure'', 0), (''total'', 0)]) ''azure'')
            (fold assign rs [(''aws'', 0), (''azure'', 0), (''total'', 0)]))"
  by (simp add: process_votes_def)

lemma live_data_tally_fails:
  assumes "fails 0 w"
  shows "get_live_data w =
           (connectivity_response,
            w\<lparr>issued := issued w @ [(sql_tally, []), (sql_tail, [])],
              faults := tl (tl (faults w)),
              console := console w @ [(''DB Error:'', QueryError)]\<rparr>)"
proof -
  let ?w1 = "w\<lparr>issued := issued w @ [(sql_tally, [])], faults := tl (faults w)\<rparr>"
  show ?thesis
  proof (cases "fails 0 ?w1")
    case True
    from query_fails [OF this] show ?thesis
      by (simp add: get_live_data_def query_fails [OF assms])
  next
    case False
    from tail_runs [OF this] show ?thesis
      by (simp add: get_live_data_def query_fails [OF assms])
  qed
qed

lemma live_data_tail_fails:
  assumes "\<not> fails 0 w" and "fails 1 w"
  shows "get_live_data w =
           (connectivity_response,
            w\<lparr>issued := issued w @ [(sql_tally, []), (sql_tail, [])],
              faults := tl (tl (faults w)),
              console := console w @ [(''DB Error:'', QueryError)]\<rparr>)"
proof -
  let ?w1 = "w\<lparr>issued := issued w @ [(sql_tally, [])], faults := tl (faults w)\<rparr>"
  have "fails 0 ?w1" using assms(2) by (simp add: fails_tl [of _ w])
  from query_fails [OF this] show ?thesis
    by (simp add: get_live_data_def tally_runs [OF assms(1)])
qed

lemma live_data_runs:
  assumes "\<not> fails 0 w" and "\<not> fails 1 w"
    and "process_votes (VoteGroups (group_by_candidate (votes_tbl w))) = Inr votes"
  shows "get_live_data w =
           (live_data_response (POD_ID w) votes
              (LogRows (take 50 (order_by_id_desc (system_logs w)))),
            w\<lparr>issued := issued w @ [(sql_tally, []), (sql_tail, [])],
              faults := tl (tl (faults w))\<rparr>)"
proof -
  let ?w1 = "w\<lparr>issued := issued w @ [(sql_tally, [])], faults := tl (faults w)\<rparr>"
  have "\<not> fails 0 ?w1" using assms(2) by (simp add: fails_tl [of _ w])
  from tail_runs [OF this] show ?thesis
    by (simp add: get_live_data_def tally_runs [OF assms(1)] assms(3))
qed

text \<open>
  C4. If the tally query or the audit tail query fails, the snapshot handler answers with
  status 500 and the body \<^verbatim>\<open>{error: "Database connectivity interruption"}\<close>, which
  carries no part of the payload; the response has status 200 exactly when both queries
  succeed.
\<close>

theorem snapshot_fails_as_a_whole:
  "(fails 0 w \<or> fails 1 w \<longrightarrow>
      fst (get_live_data w) =
        \<lparr>status = 500, body = JObj [(''error'', JStr ''Database connectivity interruption'')]\<rparr>)
   \<and> (status (fst (get_live_data w)) = 200 \<longleftrightarrow> \<not> fails 0 w \<and> \<not> fails 1 w)"
proof (cases "fails 0 w")
  case True
  then show ?thesis by (simp add: live_data_tally_fails connectivity_response_def)
next
  case f0: False
  show ?thesis
  proof (cases "fails 1 w")
    case True
    then show ?thesis by (simp add: f0 live_data_tail_fails connectivity_response_def)
  next
    case False
    then show ?thesis
      by (simp add: f0 live_data_runs [OF f0 False process_votes_groups] live_data_response_def)
  qed
qed

text \<open>The same with the tally query failing, with the tail query failing, and with neither.\<close>

theorem snapshot_fails_as_a_whole_witness:
  "fails 0 (store [''aws''] [first_row] [True])
   \<and> fst (get_live_data (store [''aws''] [first_row] [True])) =
        \<lparr>status = 500, body = JObj [(''error'', JStr ''Database connectivity interruption'')]\<rparr>
   \<and> fails 1 (store [''aws''] [first_row] [False, True])
   \<and> fst (get_live_data (store [''aws''] [first_row] [False, True])) =
        \<lparr>status = 500, body = JObj [(''error'', JStr ''Database connectivity interruption'')]\<rparr>
   \<and> \<not> fails 0 (store [''aws''] [first_row] []) \<and> \<not> fails 1 (store [''aws''] [first_row] [])
   \<and> status (fst (get_live_data (store [''aws''] [first_row] []))) = 200"
  using snapshot_fails_as_a_whole [of "store [''aws''] [first_row] [True]"]
    snapshot_fails_as_a_whole [of "store [''aws''] [first_row] [False, True]"]
    snapshot_fails_as_a_whole [of "store [''aws''] [first_row] []"]
  by (simp add: fails_def store_def)


text \<open>
  The tally the handler computes from the grouped rows of a vote table, and the whole
  body of a successful snapshot, written out.
\<close>

lemma update_fresh: "k \<notin> fst ` set al \<Longrightarrow> AList.update k v al = al @ [(k, v)]"
  by (induction al) auto

lemma fold_assign_rows:
  assumes "distinct cs" and "set cs \<inter> fst ` set ex = {}"
    and "''aws'' \<notin> fst ` set ex" and "''azure'' \<notin> fst ` set ex" and "''total'' \<notin> fst ` set ex"
  shows "fold assign (map (\<lambda>c. \<lparr>candidate = c, count = n c\<rparr>) cs)
           ([(''aws'', a), (''azure'', b), (''total'', t)] @ ex) =
         [(''aws'', if ''aws'' \<in> set cs then n ''aws'' else a),
          (''azure'', if ''azure'' \<in> set cs then n ''azure'' else b),
          (''total'', if ''total'' \<in> set cs then n ''total'' else t)] @ ex @
         map (\<lambda>c. (c, n c))
           (filter (\<lambda>c. c \<notin> {''aws'', ''azure'', ''total'', ''__proto__''}) cs)"
  using assms
proof (induction cs arbitrary: a b t ex)
  case Nil
  then show ?case by simp
next
  case (Cons c cs)
  from Cons.prems have d: "distinct cs" "c \<notin> set cs" "c \<notin> fst ` set ex"
    and e: "set cs \<inter> fst ` set ex = {}" by auto
  consider "c = ''aws''" | "c = ''azure''" | "c = ''total''" | "c = ''__proto__''"
    | "c \<notin> {''aws'', ''azure'', ''total'', ''__proto__''}" by blast
  then show ?case
  proof cases
    case 1
    with d have "''aws'' \<notin> set cs" by simp
    with 1 Cons.IH [OF d(1) e Cons.prems(3,4,5), of "n ''aws''" b t] show ?thesis
      by (simp add: assign_def)
  next
    case 2
    with d have "''azure'' \<notin> set cs" by simp
    with 2 Cons.IH [OF d(1) e Cons.prems(3,4,5), of a "n ''azure''" t] show ?thesis
      by (simp add: assign_def)
  next
    case 3
    with d have "''total'' \<notin> set cs" by simp
    with 3 Cons.IH [OF d(1) e Cons.prems(3,4,5), of a b "n ''total''"] show ?thesis
      by (simp add: assign_def)
  next
    case 4
    with Cons.IH [OF d(1) e Cons.prems(3,4,5), of a b t] show ?thesis
      by (simp add: assign_def)
  next
    case 5
    then have k: "c \<noteq> ''aws''" "c \<noteq> ''azure''" "c \<noteq> ''total''" "c \<noteq> ''__proto__''" by auto
    have u: "AList.update c (n c) ([(''aws'', a), (''azure'', b), (''total'', t)] @ ex) =
             [(''aws'', a), (''azure'', b), (''total'', t)] @ (ex @ [(c, n c)])"
      using update_fresh [of c "[(''aws'', a), (''azure'', b), (''total'', t)] @ ex" "n c"] k d(3)
      by auto
    have e': "set cs \<inter> fst ` set (ex @ [(c, n c)]) = {}" using e d(2) by auto
    have p: "''aws'' \<notin> fst ` set (ex @ [(c, n c)])" "''azure'' \<notin> fst ` set (ex @ [(c, n c)])"
      "''total'' \<notin> fst ` set (ex @ [(c, n c)])"
      using Cons.prems(3,4,5) k by auto
    from Cons.IH [OF d(1) e' p, of a b t] u k show ?thesis
      by (simp add: assign_def)
  qed
qed

lemma process_votes_table:
  "process_votes (VoteGroups (group_by_candidate vs)) =
     Inr ([(''aws'', int (count_list vs ''aws'')), (''azure'', int (count_list vs ''azure'')),
           (''total'', int (count_list vs ''aws'') + int (count_list vs ''azure''))] @
          map (\<lambda>c. (c, int (count_list vs c)))
            (filter (\<lambda>c. c \<notin> {''aws'', ''azure'', ''total'', ''__proto__''}) (remdups vs)))"
proof -
  have "fold assign (group_by_candidate vs) [(''aws'', 0), (''azure'', 0), (''total'', 0)] =
         [(''aws'', int (count_list vs ''aws'')), (''azure'', int (count_list vs ''azure'')),
          (''total'', if ''total'' \<in> set vs then int (count_list vs ''total'') else 0)] @
         map (\<lambda>c. (c, int (count_list vs c)))
           (filter (\<lambda>c. c \<notin> {''aws'', ''azure'', ''total'', ''__proto__''}) (remdups vs))"
    using fold_assign_rows [of "remdups vs" "[]" "\<lambda>c. int (count_list vs c)" 0 0 0]
    by (simp add: group_by_candidate_def)
  then show ?thesis
    by (simp add: process_votes_groups get_prop_def)
qed


lemma live_data_response_body:
  "live_data_response pod votes (LogRows ls) =
     \<lparr>status = 200,
      body = JObj [(''meta'', JObj [(''pod_id'', JStr pod), (''status'', JStr ''healthy'')]),
                   (''data'',
                    JObj [(''votes'', JObj (map (\<lambda>(k, n). (k, JNum n)) votes)),
                          (''logs'',
                           JArr (map (\<lambda>r. JObj [(''id'', JNum (int (row_id r))),
                                                  (''event_type'', JStr (event_type r)),
                                                  (''message'', JStr (message r)),
                                                  (''pod_id'', JStr (pod_id r)),
                                                  (''created_at'', JNum (int (created_at r)))])
                                   ls))])]\<rparr>"
  by (simp add: live_data_response_def votes_json_def log_json_def [abs_def])

lemma live_data_succeeds:
  assumes "\<not> fails 0 w" and "\<not> fails 1 w"
  shows "fst (get_live_data w) =
     \<lparr>status = 200,
      body = JObj [(''meta'', JObj [(''pod_id'', JStr (POD_ID w)), (''status'', JStr ''healthy'')]),
                   (''data'',
                    JObj [(''votes'',
                           JObj (map (\<lambda>(k, n). (k, JNum n))
                             ([(''aws'', int (count_list (votes_tbl w) ''aws'')),
                               (''azure'', int (count_list (votes_tbl w) ''azure'')),
                               (''total'', int (count_list (votes_tbl w) ''aws'')
                                            + int (count_list (votes_tbl w) ''azure''))] @
                              map (\<lambda>c. (c, int (count_list (votes_tbl w) c)))
                                (filter (\<lambda>c. c \<notin> {''aws'', ''azure'', ''total'', ''__proto__''})
                                   (remdups (votes_tbl w)))))),
                          (''logs'',
                           JArr (map (\<lambda>r. JObj [(''id'', JNum (int (row_id r))),
                                                  (''event_type'', JStr (event_type r)),
                                                  (''message'', JStr (message r)),
                                                  (''pod_id'', JStr (pod_id r)),
                                                  (''created_at'', JNum (int (created_at r)))])
                                   (take 50 (order_by_id_desc (system_logs w)))))])]\<rparr>"
  unfolding live_data_response_body [symmetric]
  by (simp add: live_data_runs [OF assms process_votes_table])














text \<open>
  C7. With no vote rows in the store and both queries succeeding, the snapshot handler
  answers with status 200 and a body whose votes object is \<^verbatim>\<open>{aws: 0, azure: 0, total: 0}\<close>.
\<close>

theorem empty_tally_is_success:
  assumes "votes_tbl w = []" and "\<not> fails 0 w" and "\<not> fails 1 w"
  shows "\<exists>logs.
           fst (get_live_data w) =
             \<lparr>status = 200,
              body = JObj [(''meta'', JObj [(''pod_id'', JStr (POD_ID w)), (''status'', JStr ''healthy'')]),
                           (''data'',
                            JObj [(''votes'',
                                   JObj [(''aws'', JNum 0), (''azure'', JNum 0), (''total'', JNum 0)]),
                                  (''logs'', logs)])]\<rparr>"
  using live_data_succeeds [OF assms(2,3)] by (simp add: assms(1))

text \<open>The same at an empty store without faults.\<close>

theorem empty_tally_is_success_witness:
  "votes_tbl (store [] [] []) = [] \<and> \<not> fails 0 (store [] [] []) \<and> \<not> fails 1 (store [] [] [])
   \<and> (\<exists>logs.
        fst (get_live_data (store [] [] [])) =
          \<lparr>status = 200,
           body = JObj [(''meta'', JObj [(''pod_id'', JStr ''vote-app-0''), (''status'', JStr ''healthy'')]),
                        (''data'',
                         JObj [(''votes'',
                                JObj [(''aws'', JNum 0), (''azure'', JNum 0), (''total'', JNum 0)]),
                               (''logs'', logs)])]\<rparr>)"
  using empty_tally_is_success [of "store [] [] []"]
  by (simp add: fails_def store_def)

text \<open>
  C8. From a store without vote rows, three votes for aws, each acknowledged with
  \<^verbatim>\<open>{status: "success"}\<close>, followed by a snapshot whose two queries succeed, give a body
  whose votes object is \<^verbatim>\<open>{aws: 3, azure: 0, total: 3}\<close>.
\<close>

theorem three_aws_votes_tally:
  assumes "votes_tbl w0 = []"
    and "body_candidate r1 = JStr ''aws''" and "post_vote r1 w0 = (success_response, w1)"
    and "body_candidate r2 = JStr ''aws''" and "post_vote r2 w1 = (success_response, w2)"
    and "body_candidate r3 = JStr ''aws''" and "post_vote r3 w2 = (success_response, w3)"
    and "\<not> fails 0 w3" and "\<not> fails 1 w3"
  shows "\<exists>logs.
           fst (get_live_data w3) =
             \<lparr>status = 200,
              body = JObj [(''meta'', JObj [(''pod_id'', JStr (POD_ID w3)), (''status'', JStr ''healthy'')]),
                           (''data'',
                            JObj [(''votes'',
                                   JObj [(''aws'', JNum 3), (''azure'', JNum 0), (''total'', JNum 3)]),
                                  (''logs'', logs)])]\<rparr>"
proof -
  have "votes_tbl w1 = [''aws'']"
    using success_appends_vote [OF _ assms(2,3)] assms(1) by simp
  then have "votes_tbl w2 = [''aws'', ''aws'']"
    using success_appends_vote [OF _ assms(4,5)] by simp
  then have "votes_tbl w3 = [''aws'', ''aws'', ''aws'']"
    using success_appends_vote [OF _ assms(6,7)] by simp
  with live_data_succeeds [OF assms(8,9)] show ?thesis by simp
qed

text \<open>The same for three votes for aws at an empty store without faults.\<close>

theorem three_aws_votes_tally_witness:
  "votes_tbl (store [] [] []) = []
   \<and> post_vote (vote_for ''aws'') (store [] [] []) =
       (\<lparr>status = 200, body = JObj [(''status'', JStr ''success'')]\<rparr>,
        after_votes [vote_for ''aws''] (store [] [] []))
   \<and> post_vote (vote_for ''aws'') (after_votes [vote_for ''aws''] (store [] [] [])) =
       (\<lparr>status = 200, body = JObj [(''status'', JStr ''success'')]\<rparr>,
        after_votes [vote_for ''aws'', vote_for ''aws''] (store [] [] []))
   \<and> post_vote (vote_for ''aws'') (after_votes [vote_for ''aws'', vote_for ''aws''] (store [] [] [])) =
       (\<lparr>status = 200, body = JObj [(''status'', JStr ''success'')]\<rparr>,
        after_votes [vote_for ''aws'', vote_for ''aws'', vote_for ''aws''] (store [] [] []))
   \<and> (\<exists>logs.
        fst (get_live_data
               (after_votes [vote_for ''aws'', vote_for ''aws'', vote_for ''aws''] (store [] [] []))) =
          \<lparr>status = 200,
           body = JObj [(''meta'', JObj [(''pod_id'', JStr ''vote-app-0''), (''status'', JStr ''healthy'')]),
                        (''data'',
                         JObj [(''votes'',
                                JObj [(''aws'', JNum 3), (''azure'', JNum 0), (''total'', JNum 3)]),
                               (''logs'', logs)])]\<rparr>)"
proof -
  let ?r = "vote_for ''aws''"
  let ?w0 = "store [] [] []"
  have v: "votes_tbl ?w0 = []" by (simp add: store_def)
  have c: "body_candidate ?r = JStr ''aws''" by (simp add: vote_for_def)
  have p1: "post_vote ?r ?w0 = (success_response, after_votes [?r] ?w0)"
    by code_simp
  have p2: "post_vote ?r (after_votes [?r] ?w0) = (success_response, after_votes [?r, ?r] ?w0)"
    by code_simp
  have p3: "post_vote ?r (after_votes [?r, ?r] ?w0) =
              (success_response, after_votes [?r, ?r, ?r] ?w0)"
    by code_simp
  have f: "\<not> fails 0 (after_votes [?r, ?r, ?r] ?w0)" "\<not> fails 1 (after_votes [?r, ?r, ?r] ?w0)"
    by code_simp+
  have p: "POD_ID (after_votes [?r, ?r, ?r] ?w0) = ''vote-app-0''"
    by code_simp
  from three_aws_votes_tally [OF v c p1 c p2 c p3 f] v p1 p2 p3 show ?thesis
    unfolding p success_response_def by blast
qed

end
